theory Spec2Isabelle
  imports Complex_Main "HOL-Library.Word"
begin

section \<open>Audio frames\<close>

text \<open>
  The silence detection reads the microphone through an analyser node: every look at
  the audio fills a \<open>Uint8Array\<close> with the analyser's frequency data, which is then
  averaged.
\<close>

type_synonym frame = "8 word list"

datatype js_error = TypeError

text \<open>
  \<open>dataArray.reduce((a, b) => a + b) / dataArray.length\<close>.  \<open>reduce\<close> without an initial
  value throws a \<open>TypeError\<close> on an empty array; the bytes are summed as numbers, so
  nothing wraps.  (The array has \<open>analyser.frequencyBinCount = 1024\<close> entries, so sum and
  quotient are exact in double precision.)
\<close>

definition average :: "frame \<Rightarrow> js_error + rat" where
  "average dataArray =
     (if dataArray = [] then Inl TypeError
      else Inr (of_nat (sum_list (map unat dataArray)) / of_nat (length dataArray)))"

text \<open>Frames for the examples: every bin at 40, and every bin at 0.\<close>

definition loud_frame :: frame where
  "loud_frame = replicate 1024 40"

definition quiet_frame :: frame where
  "quiet_frame = replicate 1024 0"


section \<open>The voice agent hook: silence detection and the conversation cycle\<close>

text \<open>
  The hook \<open>useVoiceAgent\<close> (options variant) records the microphone, waits for silence in
  \<open>checkSilence\<close>, a callback of \<open>setInterval(checkSilence, 100)\<close>, transcribes with the
  browser's speech recognition, posts the transcript to \<open>/api/chat\<close>, speaks the reply and
  calls \<open>startConversation\<close> again.
\<close>

definition SILENCE_DURATION :: nat where
  "SILENCE_DURATION = 1500"

definition MIN_SPEECH_DURATION :: nat where
  "MIN_SPEECH_DURATION = 500"

definition VAD_THRESHOLD :: rat where
  "VAD_THRESHOLD = 2 / 100"

text \<open>The period of the interval, in milliseconds: \<open>setInterval(checkSilence, 100)\<close>.\<close>

definition tick_interval :: nat where
  "tick_interval = 100"

text \<open>
  One tick of \<open>checkSilence\<close>: \<open>now\<close> is what \<open>Date.now()\<close> returns.  The result is the
  new \<open>lastSoundTime\<close> and whether the tick stopped the recording (and cleared the
  interval).  The averages are multiples of \<open>1/1024\<close>, so comparing with the exact
  product \<open>0.02 * 255\<close> decides as the double-precision comparison does.  An exception in
  the callback leaves the interval running.
\<close>

definition checkSilence :: "int \<Rightarrow> frame \<Rightarrow> int \<Rightarrow> int \<times> bool" where
  "checkSilence now dataArray lastSoundTime =
     (case average dataArray of
        Inl e \<Rightarrow> (lastSoundTime, False)
      | Inr avg \<Rightarrow>
          if avg > VAD_THRESHOLD * 255 then (now, False)
          else if now - lastSoundTime > int SILENCE_DURATION then (lastSoundTime, True)
          else (lastSoundTime, False))"

text \<open>
  The interval: the ticks in order, each with its time and frame, until one stops the
  recording.  The result is the index of that tick, \<open>None\<close> when no tick of the list
  does.
\<close>

fun silence_interval :: "(int \<times> frame) list \<Rightarrow> int \<Rightarrow> nat option" where
  "silence_interval [] lastSoundTime = None"
| "silence_interval ((now, d) # ticks) lastSoundTime =
     (case checkSilence now d lastSoundTime of
        (t, True) \<Rightarrow> Some 0
      | (t, False) \<Rightarrow> map_option Suc (silence_interval ticks t))"

text \<open>A frame in which \<open>checkSilence\<close> detects sound, and one in which it does not.\<close>

definition has_sound :: "frame \<Rightarrow> bool" where
  "has_sound d = (case average d of Inl e \<Rightarrow> False | Inr avg \<Rightarrow> avg > VAD_THRESHOLD * 255)"


text \<open>
  \<open>String.prototype.trim\<close> on strings of 8-bit characters: tab, line feed, vertical
  tab, form feed, carriage return, space and no-break space are white space.
\<close>

definition is_white_space :: "char \<Rightarrow> bool" where
  "is_white_space c = (of_char c \<in> {9, 10, 11, 12, 13, 32, 160 :: nat})"

definition trim :: "string \<Rightarrow> string" where
  "trim s = rev (dropWhile is_white_space (rev (dropWhile is_white_space s)))"

datatype transcribe_error = NotSupported | RecognitionError string | EmptyTranscription

datatype ('a, 'e) promise = pending | resolved 'a | rejected 'e

text \<open>
  The events of one \<open>SpeechRecognition\<close> after \<open>recognition.start()\<close>.  \<open>onresult\<close>
  carries the transcripts of \<open>event.results[event.resultIndex..]\<close>; each is appended
  with a space.  The promise is settled by the first \<open>onerror\<close> or \<open>onend\<close>.
\<close>

datatype recognition_event = onresult "string list" | onerror string | onend

fun recognize :: "recognition_event list \<Rightarrow> string \<Rightarrow> (string, transcribe_error) promise" where
  "recognize [] transcript = pending"
| "recognize (onresult parts # evs) transcript =
     recognize evs (foldl (\<lambda>t part. t @ part @ '' '') transcript parts)"
| "recognize (onerror e # evs) transcript = rejected (RecognitionError e)"
| "recognize (onend # evs) transcript =
     (if trim transcript \<noteq> [] then resolved (trim transcript)
      else rejected EmptyTranscription)"

definition transcribeAudio ::
  "bool \<Rightarrow> recognition_event list \<Rightarrow> (string, transcribe_error) promise" where
  "transcribeAudio recognitionSupported evs =
     (if \<not> recognitionSupported then rejected NotSupported else recognize evs [])"

text \<open>The value of \<open>data.response\<close> (and of \<open>data.session_id\<close> below) in a JSON reply.\<close>

datatype js_value = JSundefined | JSnull | JSstring string

fun truthy :: "js_value \<Rightarrow> bool" where
  "truthy JSundefined = False"
| "truthy JSnull = False"
| "truthy (JSstring s) = (s \<noteq> [])"

text \<open>
  The request of \<open>sendMessage\<close>: \<open>fetch_failed\<close> stands for every exception in its
  \<open>try\<close> block (the request fails, the body is not JSON, the body is \<open>null\<close>).
\<close>

datatype chat_outcome = fetch_failed | data_response js_value

datatype tts_outcome = utterance_onend | utterance_onerror | utterance_silent

datatype agent_state = idle | listening | processing | speaking

datatype role = user | assistant

record Message =
  role :: role
  content :: string
  timestamp :: nat

datatype hook_error = no_error | chat_failed | session_failed | microphone_denied

type_synonym blob = "frame list"

record hook =
  state :: agent_state
  messages :: "Message list"
  currentTranscript :: string
  sessionId :: string
  error :: hook_error
  processingRef :: bool
  recorder_recording :: bool

datatype effect =
    StartRecording
  | StopRecording
  | TranscribeAudio blob
  | PostChat string string
  | Speak string

text \<open>
  What \<open>startRecording\<close> comes to: the recorder starts; or there is no stream yet and
  \<open>initMicrophone\<close> is refused the microphone, sets the hook's error and throws; or
  the construction or the start of the \<open>MediaRecorder\<close> throws.
\<close>

datatype start_outcome = recorder_started | microphone_refused | recorder_throws

text \<open>What one call of \<open>startConversation\<close> meets.\<close>

record turn_input =
  recorder :: start_outcome
  startTime :: int
  ticks :: "(int \<times> frame) list"
  recognitionSupported :: bool
  recognition :: "recognition_event list"
  chat :: chat_outcome
  tts :: tts_outcome

text \<open>
  \<open>sendMessage\<close>: without a session id it returns \<open>null\<close> at once; otherwise the state
  becomes \<open>processing\<close>, the message is posted, and the reply's \<open>response\<close> is returned,
  \<open>null\<close> after an exception.
\<close>

definition sendMessage :: "chat_outcome \<Rightarrow> string \<Rightarrow> hook \<Rightarrow> hook \<times> effect list \<times> js_value" where
  "sendMessage outcome text h =
     (if sessionId h = [] then (h, [], JSnull)
      else
        let h1 = h\<lparr>state := processing\<rparr>;
            effs = [PostChat (sessionId h) text]
        in case outcome of
             fetch_failed \<Rightarrow> (h1\<lparr>error := chat_failed\<rparr>, effs, JSnull)
           | data_response aiResponse \<Rightarrow> (h1, effs, aiResponse))"

text \<open>
  \<open>speakText\<close>: the promise resolves to \<open>true\<close> on the utterance's \<open>onend\<close>, to
  \<open>false\<close> on its \<open>onerror\<close>, and stays pending when neither event comes.
\<close>

definition speakText :: "tts_outcome \<Rightarrow> string \<Rightarrow> hook \<Rightarrow> hook \<times> effect list \<times> (bool, unit) promise" where
  "speakText outcome text h =
     (let h1 = h\<lparr>state := speaking\<rparr>
      in case outcome of
           utterance_onend \<Rightarrow> (h1\<lparr>state := idle\<rparr>, [Speak text], resolved True)
         | utterance_onerror \<Rightarrow> (h1\<lparr>state := idle\<rparr>, [Speak text], resolved False)
         | utterance_silent \<Rightarrow> (h1, [Speak text], pending))"

text \<open>
  One call of \<open>startConversation\<close>, up to the point where it calls itself again (the
  Boolean of the result) or where nothing more happens.  The three \<open>then\<close> callbacks
  are nested in the source; none of the promises has a rejection handler.  An exception
  of \<open>startRecording\<close> is caught: \<open>processingRef\<close> is cleared and nothing more
  happens.  The recorder runs from \<open>startRecording\<close> to the tick that stops it; the
  blob is what it recorded, one frame per tick.
\<close>

definition on_aiResponse :: "turn_input \<Rightarrow> js_value \<Rightarrow> hook \<Rightarrow> hook \<times> effect list \<times> bool" where
  "on_aiResponse inp aiResponse h =
     (if truthy aiResponse then
        (case speakText (tts inp) (case aiResponse of JSstring text \<Rightarrow> text | _ \<Rightarrow> []) h of
           (h', effs, spoken) \<Rightarrow>
             if spoken = pending then (h', effs, False)
             else (h'\<lparr>processingRef := False\<rparr>, effs, True))
      else (h, [], False))"

definition on_transcript :: "turn_input \<Rightarrow> string \<Rightarrow> hook \<Rightarrow> hook \<times> effect list \<times> bool" where
  "on_transcript inp transcript h =
     (case sendMessage (chat inp) transcript h of
        (h', effs, aiResponse) \<Rightarrow>
          (case on_aiResponse inp aiResponse h' of
             (h'', effs', again) \<Rightarrow> (h'', effs @ effs', again)))"

definition on_audioBlob :: "turn_input \<Rightarrow> blob \<Rightarrow> hook \<Rightarrow> hook \<times> effect list \<times> bool" where
  "on_audioBlob inp audioBlob h =
     (case transcribeAudio (recognitionSupported inp) (recognition inp) of
        resolved transcript \<Rightarrow>
          (case on_transcript inp transcript h of
             (h', effs, again) \<Rightarrow> (h', TranscribeAudio audioBlob # effs, again))
      | _ \<Rightarrow> (h, [TranscribeAudio audioBlob], False))"

definition startConversation :: "turn_input \<Rightarrow> hook \<Rightarrow> hook \<times> effect list \<times> bool" where
  "startConversation inp h =
     (let h1 = h\<lparr>processingRef := True\<rparr> in
      case recorder inp of
        microphone_refused \<Rightarrow>
          (h1\<lparr>error := microphone_denied, processingRef := False\<rparr>, [], False)
      | recorder_throws \<Rightarrow> (h1\<lparr>processingRef := False\<rparr>, [], False)
      | recorder_started \<Rightarrow>
          let h2 = h1\<lparr>state := listening, recorder_recording := True\<rparr> in
          (case silence_interval (ticks inp) (startTime inp) of
             None \<Rightarrow> (h2, [StartRecording], False)
           | Some k \<Rightarrow>
               (case on_audioBlob inp (map snd (take (Suc k) (ticks inp)))
                       (h2\<lparr>recorder_recording := False\<rparr>) of
                  (h', effs, again) \<Rightarrow> (h', StartRecording # StopRecording # effs, again))))"

text \<open>The cycles of a call: each turn's input in order, as long as the cycle restarts.\<close>

fun conversation :: "turn_input list \<Rightarrow> hook \<Rightarrow> hook \<times> effect list" where
  "conversation [] h = (h, [])"
| "conversation (inp # inps) h =
     (case startConversation inp h of
        (h', effs, True) \<Rightarrow> (case conversation inps h' of (h'', effs') \<Rightarrow> (h'', effs @ effs'))
      | (h', effs, False) \<Rightarrow> (h', effs))"

text \<open>The hook after \<open>initialize\<close> has created the session.\<close>

definition initialized_hook :: "string \<Rightarrow> hook" where
  "initialized_hook sid =
     \<lparr>state = idle, messages = [], currentTranscript = [], sessionId = sid,
      error = no_error, processingRef = False, recorder_recording = False\<rparr>"


section \<open>The provider router\<close>

text \<open>
  Of the backend, which calls the transcription, reasoning and synthesis providers, the
  sources hold one function, in a document: the detection of the language-model
  provider when the agent starts.
  \<^verbatim>\<open>
  def _determine_provider(self) -> str:
      if os.getenv("OLLAMA_BASE_URL"):
          return "ollama"
      elif os.getenv("GROQ_API_KEY"):
          return "groq"
      elif os.getenv("OPENAI_API_KEY"):
          return "openai"
      else:
          raise ValueError("Set OLLAMA_BASE_URL, GROQ_API_KEY, or OPENAI_API_KEY")
  \<close>
  The environment is a map from names to strings; \<open>os.getenv\<close> returns \<open>None\<close> for a
  name that is not set, and both \<open>None\<close> and the empty string are false in a condition.
  A raised exception is the \<open>Inl\<close> of the result.
\<close>

type_synonym environ = "string \<rightharpoonup> string"

datatype py_error = ValueError string

definition getenv_set :: "environ \<Rightarrow> string \<Rightarrow> bool" where
  "getenv_set env name = (case env name of None \<Rightarrow> False | Some v \<Rightarrow> v \<noteq> [])"

definition determine_provider :: "environ \<Rightarrow> py_error + string" where
  "determine_provider env =
     (if getenv_set env ''OLLAMA_BASE_URL'' then Inr ''ollama''
      else if getenv_set env ''GROQ_API_KEY'' then Inr ''groq''
      else if getenv_set env ''OPENAI_API_KEY'' then Inr ''openai''
      else Inl (ValueError ''Set OLLAMA_BASE_URL, GROQ_API_KEY, or OPENAI_API_KEY''))"

text \<open>
  Modelled from the spec: the capabilities of section 3 (\<open>ProviderConfig\<close>), the failures
  of a provider's call and the value \<open>ProviderFailure{capability, triedProviders,
  lastError}\<close> of section 4.2.  The code that calls a provider and falls back to the next
  one is backend code that is not among the sources.
\<close>

datatype capability = transcription | reasoning | synthesis

datatype provider_error = timeout | transport_error | invalid_result

record 'p ProviderFailure =
  capability :: capability
  triedProviders :: "'p list"
  lastError :: "provider_error option"

text \<open>
  Modelled from the spec: what the call of one provider comes to: no answer within the
  timeout, a transport error, an answer that is not a valid result, or a response.  A
  response is a text or an audio, a list; the empty one is the ``semantically empty''
  result of section 4.2.
\<close>

datatype 'r provider_reply = times_out | transport_fails | malformed | replies "'r list"

text \<open>
  Modelled from the spec: one attempt, by section 4.2 a failure on ``timeout, transport
  error, or empty/invalid result''.
\<close>

definition attempt :: "('p \<Rightarrow> 'r provider_reply) \<Rightarrow> 'p \<Rightarrow> provider_error + 'r list" where
  "attempt call p =
     (case call p of
        times_out \<Rightarrow> Inl timeout
      | transport_fails \<Rightarrow> Inl transport_error
      | malformed \<Rightarrow> Inl invalid_result
      | replies response \<Rightarrow> if response = [] then Inl invalid_result else Inr response)"

text \<open>
  Modelled from the spec: what an invocation does, the providers it attempted and the
  failures it recorded, both in order, and what it returns.
\<close>

record ('p, 'r) invocation =
  attempted :: "'p list"
  recorded :: "('p \<times> provider_error) list"
  returned :: "'p ProviderFailure + 'r list"

text \<open>
  Modelled from the spec: the loop of \<open>invoke\<close> over the rest of the priority list, by
  section 4.2: ``for each provider, attempts the call [...]; on success, returns
  immediately; on failure [...], records the failure and proceeds to the next provider;
  if the list is exhausted, returns \<open>ProviderFailure\<close>''.
\<close>

fun invoke_loop ::
  "('p \<Rightarrow> 'r provider_reply) \<Rightarrow> capability \<Rightarrow> 'p list \<Rightarrow> 'p list \<Rightarrow>
   ('p \<times> provider_error) list \<Rightarrow> ('p, 'r) invocation" where
  "invoke_loop call cap [] tried failures =
     \<lparr>attempted = tried, recorded = failures,
      returned = Inl \<lparr>capability = cap, triedProviders = tried,
                       lastError = (if failures = [] then None
                                    else Some (snd (last failures)))\<rparr>\<rparr>"
| "invoke_loop call cap (p # ps) tried failures =
     (case attempt call p of
        Inr response \<Rightarrow>
          \<lparr>attempted = tried @ [p], recorded = failures, returned = Inr response\<rparr>
      | Inl e \<Rightarrow> invoke_loop call cap ps (tried @ [p]) (failures @ [(p, e)]))"

text \<open>
  Modelled from the spec: \<open>invoke(capability, request)\<close> of section 4.2.  \<open>priorityList\<close>
  is the configuration, an ordered list of providers for each capability; \<open>call\<close> is
  what each provider does with the request.
\<close>

definition invoke ::
  "(capability \<Rightarrow> 'p list) \<Rightarrow> ('p \<Rightarrow> 'r provider_reply) \<Rightarrow> capability \<Rightarrow> ('p, 'r) invocation" where
  "invoke priorityList call cap = invoke_loop call cap (priorityList cap) [] []"

section \<open>Session initialisation in App.tsx\<close>

text \<open>
  \<open>initializeSession\<close> (later revision of \<open>App.tsx\<close>) requests \<open>/session/new\<close>.  Any
  exception in its \<open>try\<close> block, thrown by \<open>fetch\<close>, by the check of \<open>response.ok\<close>, by
  \<open>response.json()\<close> or by the check of \<open>data.session_id\<close>, is caught: the error
  message is stored and the session id becomes \<open>`fallback-${Date.now()}`\<close>.
\<close>

text \<open>The decimal digits of a number, as a template literal prints it.\<close>

function decimal :: "nat \<Rightarrow> string" where
  "decimal n =
     (if n < 10 then [''0123456789'' ! n]
      else decimal (n div 10) @ [''0123456789'' ! (n mod 10)])"
  by pat_completeness auto
termination
  by (relation "measure id") auto

declare decimal.simps [simp del]

datatype json_body =
    body_error string
  | json_object js_value

datatype fetch_outcome =
    fetch_rejected string
  | fetch_response bool nat json_body

record app =
  app_sessionId :: "string option"
  sessionError :: "string option"
  isInCall :: bool

text \<open>
  The body of the \<open>try\<close> block: the session id it sets, or the message of the error
  thrown.  \<open>fetch_rejected msg\<close> is a request that fails with the message \<open>msg\<close>.
  \<open>fetch_response ok status body\<close> is a response with \<open>response.ok\<close>,
  \<open>response.status\<close> and its body: \<open>json_object v\<close> is JSON data whose \<open>session_id\<close>
  reads as \<open>v\<close> (\<open>JSundefined\<close> when it has none), \<open>body_error msg\<close> a body for
  which \<open>response.json()\<close> or the reading of \<open>session_id\<close> throws (not JSON, or the
  JSON \<open>null\<close>).
\<close>

definition request_session :: "fetch_outcome \<Rightarrow> string + string" where
  "request_session outcome =
     (case outcome of
        fetch_rejected msg \<Rightarrow> Inl msg
      | fetch_response ok status body \<Rightarrow>
          if \<not> ok then Inl (''HTTP error! status: '' @ decimal status)
          else (case body of
                  body_error msg \<Rightarrow> Inl msg
                | json_object session_id \<Rightarrow>
                    (case session_id of
                       JSstring sid \<Rightarrow>
                         if sid \<noteq> [] then Inr sid else Inl ''No session_id in response''
                     | _ \<Rightarrow> Inl ''No session_id in response'')))"

definition initializeSession :: "nat \<Rightarrow> fetch_outcome \<Rightarrow> app \<Rightarrow> app" where
  "initializeSession now outcome a =
     (case request_session outcome of
        Inr sid \<Rightarrow> a\<lparr>app_sessionId := Some sid, sessionError := None\<rparr>
      | Inl msg \<Rightarrow>
          a\<lparr>sessionError := Some msg, app_sessionId := Some (''fallback-'' @ decimal now)\<rparr>)"

definition initial_app :: app where
  "initial_app = \<lparr>app_sessionId = None, sessionError = None, isInCall = False\<rparr>"

text \<open>
  The Call button carries \<open>disabled={!sessionId}\<close>; \<open>null\<close> and the empty string are
  false.  \<open>handleStartCall\<close> returns at once without a session id and enters the call
  otherwise.
\<close>

definition call_button_disabled :: "app \<Rightarrow> bool" where
  "call_button_disabled a = (case app_sessionId a of None \<Rightarrow> True | Some sid \<Rightarrow> sid = [])"

definition handleStartCall :: "app \<Rightarrow> app" where
  "handleStartCall a =
     (case app_sessionId a of
        None \<Rightarrow> a
      | Some sid \<Rightarrow> if sid = [] then a else a\<lparr>isInCall := True\<rparr>)"


section \<open>The call screen of App.tsx\<close>

text \<open>
  The later revision of \<open>App.tsx\<close> speaks with the browser's speech synthesis and
  records through a hook, of which it uses \<open>startVoiceCall\<close> and \<open>stopVoiceCall\<close>; the
  hook calls \<open>handleResponseReceived\<close> with every reply.  The hook itself is not among
  the sources, so the machine keeps what the screen asks of it: \<open>microphone\<close> holds when
  the last of the two calls was \<open>startVoiceCall\<close> (which the screen logs as ``Starting
  microphone'').  \<open>utterances\<close> is the queue of \<open>speechSynthesis\<close>, whose head is being
  spoken, and the two counters are the pending timeouts of \<open>handleStartCall\<close> (500 ms) and
  of \<open>utterance.onend\<close> (1000 ms).  No handler clears a timeout.
\<close>

datatype call_status = st_idle | st_listening | st_thinking | st_speaking | st_error

record voice_call =
  page :: app
  call_status :: call_status
  app_transcript :: string
  app_isListening :: bool
  isSpeakingRef :: bool
  microphone :: bool
  utterances :: "string list"
  greeting_timers :: nat
  resume_timers :: nat

definition greeting :: string where
  "greeting = ''Hello! I'm your medical clinic AI assistant. I can help you with information about our services, book appointments, and answer health-related questions. How can I help you today?''"

definition playVoiceResponse :: "string \<Rightarrow> voice_call \<Rightarrow> voice_call" where
  "playVoiceResponse text c = c\<lparr>isSpeakingRef := True, utterances := utterances c @ [text]\<rparr>"

definition handleResponseReceived :: "string \<Rightarrow> voice_call \<Rightarrow> voice_call" where
  "handleResponseReceived responseText c =
     playVoiceResponse responseText
       (c\<lparr>microphone := False, app_isListening := False, app_transcript := responseText,
          call_status := st_speaking\<rparr>)"

text \<open>
  \<open>handleEndCall\<close>.  \<open>speechSynthesis.cancel()\<close> empties the queue; by the Web Speech
  API an utterance it removes gets an \<open>error\<close> event (\<open>interrupted\<close> or \<open>canceled\<close>),
  for which the screen has no handler.
\<close>

definition handleEndCall :: "voice_call \<Rightarrow> voice_call" where
  "handleEndCall c =
     c\<lparr>microphone := False, utterances := [], page := (page c)\<lparr>isInCall := False\<rparr>,
       app_transcript := [], call_status := st_idle, app_isListening := False,
       isSpeakingRef := False\<rparr>"

definition handleStopListening :: "voice_call \<Rightarrow> voice_call" where
  "handleStopListening c =
     c\<lparr>microphone := False, app_isListening := False, call_status := st_thinking\<rparr>"

datatype call_event =
    click_call
  | greeting_timeout
  | response_received string
  | speech_onstart
  | speech_onend
  | resume_timeout
  | click_end_call
  | click_stop_listening

text \<open>
  The handlers.  The Call button is rendered outside a call, the End Call button in a
  call, the Stop Listening button in a call while \<open>isListening\<close>.  \<open>click_call\<close> runs
  \<open>handleStartCall\<close>, which sets a timeout for the greeting; \<open>speech_onend\<close> is the
  \<open>onend\<close> of the utterance being spoken, which sets the timeout that opens the
  microphone; \<open>greeting_timeout\<close> and \<open>resume_timeout\<close> are the timeouts running out.
\<close>

definition call_step :: "voice_call \<Rightarrow> call_event \<Rightarrow> voice_call" where
  "call_step c ev =
     (case ev of
        click_call \<Rightarrow>
          if isInCall (page c) \<or> call_button_disabled (page c) then c
          else c\<lparr>page := handleStartCall (page c), app_transcript := [],
                 call_status := st_idle, greeting_timers := Suc (greeting_timers c)\<rparr>
      | greeting_timeout \<Rightarrow>
          if greeting_timers c = 0 then c
          else playVoiceResponse greeting
                 (c\<lparr>greeting_timers := greeting_timers c - 1, app_transcript := greeting\<rparr>)
      | response_received responseText \<Rightarrow> handleResponseReceived responseText c
      | speech_onstart \<Rightarrow> if utterances c = [] then c else c\<lparr>call_status := st_speaking\<rparr>
      | speech_onend \<Rightarrow>
          if utterances c = [] then c
          else c\<lparr>utterances := tl (utterances c), isSpeakingRef := False,
                 resume_timers := Suc (resume_timers c)\<rparr>
      | resume_timeout \<Rightarrow>
          if resume_timers c = 0 then c
          else c\<lparr>resume_timers := resume_timers c - 1, call_status := st_listening,
                 app_isListening := True, microphone := True\<rparr>
      | click_end_call \<Rightarrow> if isInCall (page c) then handleEndCall c else c
      | click_stop_listening \<Rightarrow>
          if isInCall (page c) \<and> app_isListening c then handleStopListening c else c)"

definition run_call :: "call_event list \<Rightarrow> voice_call \<Rightarrow> voice_call" where
  "run_call evs c = foldl call_step c evs"

text \<open>The hook was asked to record, and an utterance is being spoken.\<close>

definition microphone_while_speaking :: "voice_call \<Rightarrow> bool" where
  "microphone_while_speaking c = (microphone c \<and> utterances c \<noteq> [])"


section \<open>The call component of CallInterface.tsx\<close>

text \<open>
  The state and the refs of the later revision of \<open>CallInterface.tsx\<close>, and its
  \<open>stopListening\<close> and \<open>endCall\<close>, which work on the refs and update the call state
  from its previous value.  Every call of \<open>startListening\<close> creates a \<open>MediaRecorder\<close>,
  its chunk list and its loop; they are one \<open>listener\<close>, and \<open>mediaRecorderRef\<close> refers
  to the recorder of the last one.

  Of \<open>MediaRecorder\<close> the model keeps what the W3C recording specification says:
  \<open>stop()\<close> does nothing on an inactive recorder, and otherwise makes it inactive and
  queues a task that fires \<open>dataavailable\<close> with the recorded data and then \<open>stop\<close>.
\<close>

record vad_refs =
  silenceCounterRef :: nat
  isRecordingRef :: bool

record CallState =
  isConnected :: bool
  isListening :: bool
  isSpeaking :: bool
  status :: string

datatype ready_state = CONNECTING | OPEN | CLOSING | CLOSED

record listener =
  recording :: bool
  captured :: blob
  stop_task :: "blob option"
  audioChunks :: "blob list"
  scheduled :: bool

record component =
  callState :: CallState
  transcripts :: "(string \<times> string) list"
  websocketRef :: "ready_state option"
  ws_sent :: "blob list"
  streamRef :: "bool list option"
  listeners :: "listener list"
  animationFrameRef :: "nat option"
  refs :: vad_refs
  playing :: nat

definition update_listener :: "nat \<Rightarrow> (listener \<Rightarrow> listener) \<Rightarrow> component \<Rightarrow> component" where
  "update_listener i f c =
     (if i < length (listeners c) then c\<lparr>listeners := (listeners c)[i := f (listeners c ! i)]\<rparr>
      else c)"

text \<open>\<open>mediaRecorder.stop()\<close> on the recorder of listener \<open>i\<close>.\<close>

definition recorder_stop :: "nat \<Rightarrow> component \<Rightarrow> component" where
  "recorder_stop i c =
     update_listener i
       (\<lambda>l. if recording l then l\<lparr>recording := False, captured := [], stop_task := Some (captured l)\<rparr>
            else l) c"

definition stopListening :: "component \<Rightarrow> component" where
  "stopListening c =
     (let c1 = (case animationFrameRef c of
                  None \<Rightarrow> c
                | Some i \<Rightarrow> update_listener i (\<lambda>l. l\<lparr>scheduled := False\<rparr>) c)
      in if listeners c1 \<noteq> [] \<and> isRecordingRef (refs c1)
         then (recorder_stop (length (listeners c1) - 1) c1)
                \<lparr>refs := (refs c1)\<lparr>isRecordingRef := False\<rparr>\<rparr>
         else c1)"

text \<open>\<open>WebSocket.close()\<close>: a socket that is not yet closing starts to close.\<close>

fun ws_close :: "ready_state \<Rightarrow> ready_state" where
  "ws_close CONNECTING = CLOSING"
| "ws_close OPEN = CLOSING"
| "ws_close CLOSING = CLOSING"
| "ws_close CLOSED = CLOSED"

definition endCall :: "component \<Rightarrow> component" where
  "endCall c =
     (let c1 = stopListening c;
          c2 = c1\<lparr>websocketRef := map_option ws_close (websocketRef c1)\<rparr>;
          c3 = c2\<lparr>streamRef := map_option (map (\<lambda>track. False)) (streamRef c2)\<rparr>;
          c4 = (if listeners c3 \<noteq> [] then recorder_stop (length (listeners c3) - 1) c3 else c3)
      in c4\<lparr>callState := (callState c4)\<lparr>isConnected := False, isListening := False,
                isSpeaking := False, status := ''Call ended''\<rparr>\<rparr>)"


section \<open>Example inputs\<close>

text \<open>
  Ticks of the hook's interval, 100 ms apart: five with sound, then silence.  The
  sixteenth silent tick comes 1600 ms after the last sound.
\<close>

definition example_ticks :: "(int \<times> frame) list" where
  "example_ticks =
     [(100, loud_frame), (200, loud_frame), (300, loud_frame), (400, loud_frame),
      (500, loud_frame), (600, quiet_frame), (700, quiet_frame), (800, quiet_frame),
      (900, quiet_frame), (1000, quiet_frame), (1100, quiet_frame), (1200, quiet_frame),
      (1300, quiet_frame), (1400, quiet_frame), (1500, quiet_frame), (1600, quiet_frame),
      (1700, quiet_frame), (1800, quiet_frame), (1900, quiet_frame), (2000, quiet_frame),
      (2100, quiet_frame)]"


text \<open>One tick with sound, 100 ms of it, then silence.\<close>

definition cough_ticks :: "(int \<times> frame) list" where
  "cough_ticks =
     [(100, loud_frame), (200, quiet_frame), (300, quiet_frame), (400, quiet_frame),
      (500, quiet_frame), (600, quiet_frame), (700, quiet_frame), (800, quiet_frame),
      (900, quiet_frame), (1000, quiet_frame), (1100, quiet_frame), (1200, quiet_frame),
      (1300, quiet_frame), (1400, quiet_frame), (1500, quiet_frame), (1600, quiet_frame),
      (1700, quiet_frame)]"

text \<open>Sixteen silent ticks: no sound at all.\<close>

definition silent_ticks :: "(int \<times> frame) list" where
  "silent_ticks =
     [(100, quiet_frame), (200, quiet_frame), (300, quiet_frame), (400, quiet_frame),
      (500, quiet_frame), (600, quiet_frame), (700, quiet_frame), (800, quiet_frame),
      (900, quiet_frame), (1000, quiet_frame), (1100, quiet_frame), (1200, quiet_frame),
      (1300, quiet_frame), (1400, quiet_frame), (1500, quiet_frame), (1600, quiet_frame)]"


definition good_turn :: turn_input where
  "good_turn =
     \<lparr>recorder = recorder_started, startTime = 0, ticks = example_ticks,
      recognitionSupported = True,
      recognition = [onresult [''I need an appointment''], onend],
      chat = data_response (JSstring ''Which day suits you?''), tts = utterance_onend\<rparr>"

definition empty_transcript_turn :: turn_input where
  "empty_transcript_turn = good_turn\<lparr>recognition := [onend]\<rparr>"

definition chat_failure_turn :: turn_input where
  "chat_failure_turn = good_turn\<lparr>chat := fetch_failed\<rparr>"

definition tts_failure_turn :: turn_input where
  "tts_failure_turn = good_turn\<lparr>tts := utterance_onerror\<rparr>"

definition cough_turn :: turn_input where
  "cough_turn = good_turn\<lparr>ticks := cough_ticks\<rparr>"

text \<open>A turn in which nobody speaks; the recognition ends without a transcript.\<close>

definition silent_turn :: turn_input where
  "silent_turn = empty_transcript_turn\<lparr>ticks := silent_ticks\<rparr>"

text \<open>Three providers of one capability, and what each does with a request.\<close>

datatype example_provider = provider_A | provider_B | provider_C

definition example_priority :: "capability \<Rightarrow> example_provider list" where
  "example_priority cap = [provider_A, provider_B, provider_C]"

definition third_answers :: "example_provider \<Rightarrow> char provider_reply" where
  "third_answers p =
     (case p of
        provider_A \<Rightarrow> times_out
      | provider_B \<Rightarrow> replies []
      | provider_C \<Rightarrow> replies ''I need an appointment'')"

definition none_answers :: "example_provider \<Rightarrow> char provider_reply" where
  "none_answers p =
     (case p of
        provider_A \<Rightarrow> times_out
      | provider_B \<Rightarrow> replies []
      | provider_C \<Rightarrow> transport_fails)"

text \<open>The call screen with its session, before the first call.\<close>

definition ready_call :: voice_call where
  "ready_call =
     \<lparr>page = \<lparr>app_sessionId = Some ''s1'', sessionError = None, isInCall = False\<rparr>,
      call_status = st_idle, app_transcript = [], app_isListening = False,
      isSpeakingRef = False, microphone = False, utterances = [], greeting_timers = 0,
      resume_timers = 0\<rparr>"

text \<open>
  The caller starts a call and hears the greeting to its end, clicks End Call within
  the second that follows, and later starts a call again; the greeting begins.
\<close>

definition hang_up_trace :: "call_event list" where
  "hang_up_trace =
     [click_call, greeting_timeout, speech_onstart, speech_onend, click_end_call,
      resume_timeout, click_call, greeting_timeout, speech_onstart]"

text \<open>A component in a call, its recorder recording.\<close>

definition recording_component :: component where
  "recording_component =
     \<lparr>callState = \<lparr>isConnected = True, isListening = True, isSpeaking = False,
                    status = ''Listening...''\<rparr>,
      transcripts = [], websocketRef = Some OPEN, ws_sent = [], streamRef = Some [True],
      listeners = [\<lparr>recording = True, captured = [loud_frame], stop_task = None,
                     audioChunks = [], scheduled = True\<rparr>],
      animationFrameRef = Some 0,
      refs = \<lparr>silenceCounterRef = 0, isRecordingRef = True\<rparr>, playing = 0\<rparr>"

section \<open>Properties of the silence detection\<close>

lemma average_loud_frame: "average loud_frame = Inr 40"
  by (simp add: average_def loud_frame_def sum_list_replicate)

lemma average_quiet_frame: "average quiet_frame = Inr 0"
  by (simp add: average_def quiet_frame_def sum_list_replicate)

lemma has_sound_loud_frame: "has_sound loud_frame"
  by (simp add: has_sound_def average_loud_frame VAD_THRESHOLD_def)

lemma has_sound_quiet_frame: "\<not> has_sound quiet_frame"
  by (simp add: has_sound_def average_quiet_frame VAD_THRESHOLD_def)









lemma silence_interval_example: "silence_interval example_ticks 0 = Some 20"
  by (simp add: example_ticks_def checkSilence_def average_loud_frame average_quiet_frame
      VAD_THRESHOLD_def SILENCE_DURATION_def)

lemma silence_interval_cough: "silence_interval cough_ticks 0 = Some 16"
  by (simp add: cough_ticks_def checkSilence_def average_loud_frame average_quiet_frame
      VAD_THRESHOLD_def SILENCE_DURATION_def)

lemma silence_interval_silent: "silence_interval silent_ticks 0 = Some 15"
  by (simp add: silent_ticks_def checkSilence_def average_quiet_frame
      VAD_THRESHOLD_def SILENCE_DURATION_def)


section \<open>Properties of the conversation cycle\<close>

lemma take_example_ticks: "take 21 example_ticks = example_ticks"
  by (simp add: example_ticks_def)

lemma take_cough_ticks: "take 17 cough_ticks = cough_ticks"
  by (simp add: cough_ticks_def)

lemma take_silent_ticks: "take 16 silent_ticks = silent_ticks"
  by (simp add: silent_ticks_def)

lemmas turn_simps =
  startConversation_def on_audioBlob_def on_transcript_def on_aiResponse_def sendMessage_def
  speakText_def transcribeAudio_def initialized_hook_def trim_def is_white_space_def
  silence_interval_example silence_interval_cough take_example_ticks take_cough_ticks
  good_turn_def empty_transcript_turn_def chat_failure_turn_def tts_failure_turn_def
  cough_turn_def

text \<open>A failed utterance does not stop the cycle: \<open>speakText\<close> resolves to \<open>false\<close>.\<close>

lemma tts_failure_continues:
  "snd (conversation [tts_failure_turn, good_turn] (initialized_hook ''s1'')) =
    [StartRecording, StopRecording, TranscribeAudio (map snd example_ticks),
     PostChat ''s1'' ''I need an appointment'', Speak ''Which day suits you?'',
     StartRecording, StopRecording, TranscribeAudio (map snd example_ticks),
     PostChat ''s1'' ''I need an appointment'', Speak ''Which day suits you?'']"
  by (simp add: turn_simps)

text \<open>
  Claim C4 (a failed turn returns the session to listening and the conversation goes
  on) does not hold of \<open>startConversation\<close>.  In a call of two turns whose first
  transcription ends with an empty transcript, the cycle is not started again: the
  second turn is never recorded, the state stays \<open>listening\<close> with the recorder
  stopped and \<open>processingRef\<close> set.  When the chat request of the first turn fails, the
  cycle is not started again either, and the state stays \<open>processing\<close>.
\<close>

theorem turn_failure_ends_conversation:
  "conversation [empty_transcript_turn, good_turn] (initialized_hook ''s1'') =
     ((initialized_hook ''s1'')\<lparr>state := listening, processingRef := True\<rparr>,
      [StartRecording, StopRecording, TranscribeAudio (map snd example_ticks)])
   \<and> conversation [chat_failure_turn, good_turn] (initialized_hook ''s1'') =
     ((initialized_hook ''s1'')
        \<lparr>state := processing, processingRef := True, error := chat_failed\<rparr>,
      [StartRecording, StopRecording, TranscribeAudio (map snd example_ticks),
       PostChat ''s1'' ''I need an appointment''])"
  by (simp add: turn_simps)






lemma sendMessage_messages:
  "sendMessage out t h = (h', effs, v) \<Longrightarrow> messages h' = messages h"
  by (auto simp: sendMessage_def Let_def split: if_splits chat_outcome.splits)

lemma speakText_messages:
  "speakText out t h = (h', effs, v) \<Longrightarrow> messages h' = messages h"
  by (auto simp: speakText_def Let_def split: tts_outcome.splits)

lemma on_aiResponse_messages:
  "on_aiResponse inp v h = (h', effs, again) \<Longrightarrow> messages h' = messages h"
  by (auto simp: on_aiResponse_def split: if_splits prod.splits dest: speakText_messages)

lemma on_transcript_messages:
  "on_transcript inp t h = (h', effs, again) \<Longrightarrow> messages h' = messages h"
  by (auto simp: on_transcript_def split: prod.splits
      dest!: sendMessage_messages on_aiResponse_messages)

lemma on_audioBlob_messages:
  "on_audioBlob inp b h = (h', effs, again) \<Longrightarrow> messages h' = messages h"
  by (auto simp: on_audioBlob_def split: promise.splits prod.splits
      dest!: on_transcript_messages)

lemma startConversation_messages:
  "startConversation inp h = (h', effs, again) \<Longrightarrow> messages h' = messages h"
  by (auto simp: startConversation_def Let_def
      split: start_outcome.splits option.splits prod.splits
      dest!: on_audioBlob_messages)

text \<open>No call of \<open>startConversation\<close> changes \<open>messages\<close>, whatever the turns bring.\<close>

lemma conversation_messages: "messages (fst (conversation inps h)) = messages h"
proof (induction inps arbitrary: h)
  case Nil
  then show ?case by simp
next
  case (Cons inp inps)
  obtain h' effs again where s: "startConversation inp h = (h', effs, again)"
    by (cases "startConversation inp h") auto
  from startConversation_messages[OF s] have m: "messages h' = messages h" .
  show ?case
  proof (cases again)
    case True
    with s m Cons.IH[of h'] show ?thesis by (simp split: prod.splits) (metis fst_conv)
  next
    case False
    with s m show ?thesis by simp
  qed
qed

text \<open>
  Claim C8 (after N completed turns the history holds N entries, caller and agent
  alternating) does not hold of the hook's \<open>messages\<close>.  After two cycles that
  succeed, four turns of which each was transcribed or answered and spoken, \<open>messages\<close>
  is still empty: the hook posts each transcript with the session id and appends
  nothing.
\<close>

theorem history_not_recorded:
  "messages (fst (conversation [good_turn, good_turn] (initialized_hook ''s1''))) = []
   \<and> snd (conversation [good_turn, good_turn] (initialized_hook ''s1'')) =
      [StartRecording, StopRecording, TranscribeAudio (map snd example_ticks),
       PostChat ''s1'' ''I need an appointment'', Speak ''Which day suits you?'',
       StartRecording, StopRecording, TranscribeAudio (map snd example_ticks),
       PostChat ''s1'' ''I need an appointment'', Speak ''Which day suits you?'']"
  by (simp add: turn_simps)

text \<open>
  Claim C5 (a turn with less speech than \<open>MIN_SPEECH_DURATION\<close> is discarded and no
  transcription is requested for it) does not hold of the hook: \<open>MIN_SPEECH_DURATION\<close>
  is declared and never read.  After one tick with sound, 100 ms, and silence, the hook
  stops the recorder and passes the recorded audio to the transcription, the chat
  request and the speech.  After sixteen ticks without any sound it stops the recorder
  as well and requests a transcription of the recording.
\<close>

theorem short_turn_transcribed:
  "length (filter has_sound (map snd cough_ticks)) * tick_interval < MIN_SPEECH_DURATION
   \<and> snd (conversation [cough_turn] (initialized_hook ''s1'')) =
       [StartRecording, StopRecording, TranscribeAudio (map snd cough_ticks),
        PostChat ''s1'' ''I need an appointment'', Speak ''Which day suits you?'']
   \<and> filter has_sound (map snd silent_ticks) = []
   \<and> snd (conversation [silent_turn] (initialized_hook ''s1'')) =
       [StartRecording, StopRecording, TranscribeAudio (map snd silent_ticks)]"
proof (intro conjI)
  show "length (filter has_sound (map snd cough_ticks)) * tick_interval < MIN_SPEECH_DURATION"
    by (simp add: cough_ticks_def has_sound_loud_frame has_sound_quiet_frame
        tick_interval_def MIN_SPEECH_DURATION_def)
  show "snd (conversation [cough_turn] (initialized_hook ''s1'')) =
       [StartRecording, StopRecording, TranscribeAudio (map snd cough_ticks),
        PostChat ''s1'' ''I need an appointment'', Speak ''Which day suits you?'']"
    by (simp add: turn_simps)
  show "filter has_sound (map snd silent_ticks) = []"
    by (simp add: silent_ticks_def has_sound_quiet_frame)
  show "snd (conversation [silent_turn] (initialized_hook ''s1'')) =
       [StartRecording, StopRecording, TranscribeAudio (map snd silent_ticks)]"
    by (simp add: turn_simps silent_turn_def silence_interval_silent take_silent_ticks)
qed

text \<open>
  When the microphone is refused, \<open>startConversation\<close> ends with the hook's error set
  and \<open>processingRef\<close> cleared; nothing is recorded.
\<close>

lemma microphone_refused_turn:
  "startConversation (good_turn\<lparr>recorder := microphone_refused\<rparr>) (initialized_hook ''s1'') =
     ((initialized_hook ''s1'')\<lparr>error := microphone_denied\<rparr>, [], False)"
  by (simp add: startConversation_def good_turn_def initialized_hook_def)

section \<open>Properties of the provider router\<close>

text \<open>
  \<open>_determine_provider\<close> chooses by the environment alone: the provider of the first of
  the three variables that is set, and an exception when none is.
\<close>

lemma determine_provider_raises_iff:
  "isl (determine_provider env) \<longleftrightarrow>
     \<not> getenv_set env ''OLLAMA_BASE_URL'' \<and> \<not> getenv_set env ''GROQ_API_KEY'' \<and>
     \<not> getenv_set env ''OPENAI_API_KEY''"
  by (simp add: determine_provider_def)

text \<open>Providers that fail are attempted in order, and their failures recorded in order.\<close>

lemma invoke_loop_failures:
  "list_all (\<lambda>q. isl (attempt call q)) pre \<Longrightarrow>
   invoke_loop call cap (pre @ rest) tried failures =
     invoke_loop call cap rest (tried @ pre)
       (failures @ map (\<lambda>q. (q, projl (attempt call q))) pre)"
proof (induction pre arbitrary: tried failures)
  case Nil
  show ?case by simp
next
  case (Cons q pre)
  from Cons.prems obtain e where e: "attempt call q = Inl e"
    by (cases "attempt call q") simp_all
  from Cons.prems have "list_all (\<lambda>q. isl (attempt call q)) pre"
    by simp
  from Cons.IH[OF this, of "tried @ [q]" "failures @ [(q, e)]"] e
  show ?case by simp
qed

text \<open>
  Claim C2.  When the priority list of a capability is \<open>pre @ p # post\<close>, every
  provider of \<open>pre\<close> fails and \<open>p\<close> succeeds, \<open>invoke\<close> attempts the providers of \<open>pre\<close>
  in order and then \<open>p\<close>, and none of \<open>post\<close>; it returns the response of \<open>p\<close>; and
  the failures it records are those of the providers of \<open>pre\<close>, one each, in order.
\<close>

theorem invoke_first_success:
  assumes "priorityList cap = pre @ p # post"
    and "list_all (\<lambda>q. isl (attempt call q)) pre"
    and "attempt call p = Inr response"
  shows "invoke priorityList call cap =
           \<lparr>attempted = pre @ [p],
            recorded = map (\<lambda>q. (q, projl (attempt call q))) pre,
            returned = Inr response\<rparr>"
  using assms(1,3) invoke_loop_failures[OF assms(2), of cap "p # post" "[]" "[]"]
  by (simp add: invoke_def)

theorem invoke_first_success_witness:
  "example_priority transcription = [provider_A, provider_B] @ provider_C # []
   \<and> list_all (\<lambda>q. isl (attempt third_answers q)) [provider_A, provider_B]
   \<and> attempt third_answers provider_C = Inr ''I need an appointment''
   \<and> invoke example_priority third_answers transcription =
       \<lparr>attempted = [provider_A, provider_B, provider_C],
        recorded = [(provider_A, timeout), (provider_B, invalid_result)],
        returned = Inr ''I need an appointment''\<rparr>"
  using invoke_first_success
    [of example_priority transcription "[provider_A, provider_B]" provider_C "[]"
        third_answers "''I need an appointment''"]
  by (simp add: example_priority_def third_answers_def attempt_def)

text \<open>
  Claim C7.  When every provider of a capability's priority list fails, \<open>invoke\<close>
  returns a \<open>ProviderFailure\<close>, a value: it carries the capability, the providers of
  the list in configured order, all of them attempted, and the error of the last one
  (none when the list is empty).
\<close>

theorem invoke_exhausted:
  assumes "list_all (\<lambda>q. isl (attempt call q)) (priorityList cap)"
  shows "invoke priorityList call cap =
           \<lparr>attempted = priorityList cap,
            recorded = map (\<lambda>q. (q, projl (attempt call q))) (priorityList cap),
            returned = Inl \<lparr>capability = cap, triedProviders = priorityList cap,
                             lastError = (if priorityList cap = [] then None
                                          else Some (projl (attempt call
                                                 (last (priorityList cap)))))\<rparr>\<rparr>"
  using invoke_loop_failures[OF assms, of cap "[]" "[]" "[]"]
  by (simp add: invoke_def last_map)

theorem invoke_exhausted_witness:
  "list_all (\<lambda>q. isl (attempt none_answers q)) (example_priority synthesis)
   \<and> invoke example_priority none_answers synthesis =
       \<lparr>attempted = [provider_A, provider_B, provider_C],
        recorded = [(provider_A, timeout), (provider_B, invalid_result),
                    (provider_C, transport_error)],
        returned = Inl \<lparr>capability = synthesis,
                         triedProviders = [provider_A, provider_B, provider_C],
                         lastError = Some transport_error\<rparr>\<rparr>"
  using invoke_exhausted[of none_answers example_priority synthesis]
  by (simp add: example_priority_def none_answers_def attempt_def)

section \<open>Properties of session initialisation\<close>

lemma call_button_enabled:
  "\<not> call_button_disabled (initializeSession now outcome a)"
  by (auto simp: initializeSession_def request_session_def call_button_disabled_def
      split: fetch_outcome.splits json_body.splits js_value.splits sum.splits if_splits)

text \<open>
  Claim C9.  Unless the request is answered with an ok response whose JSON object
  carries a non-empty \<open>session_id\<close>, \<open>initializeSession\<close> sets the session id to
  \<open>fallback-\<close> followed by the time in decimal; the Call button is then enabled, and
  \<open>handleStartCall\<close> enters the call.
\<close>

theorem fallback_session:
  assumes "\<not> (\<exists>status sid. sid \<noteq> [] \<and>
              outcome = fetch_response True status (json_object (JSstring sid)))"
  shows "app_sessionId (initializeSession now outcome a) = Some (''fallback-'' @ decimal now)
       \<and> \<not> call_button_disabled (initializeSession now outcome a)
       \<and> isInCall (handleStartCall (initializeSession now outcome a))"
  using assms
  by (auto simp: initializeSession_def request_session_def call_button_disabled_def
      handleStartCall_def
      split: fetch_outcome.splits json_body.splits js_value.splits sum.splits)

theorem fallback_session_witness:
  "app_sessionId (initializeSession 1767436800000 (fetch_rejected ''Failed to fetch'') initial_app)
     = Some ''fallback-1767436800000''
   \<and> \<not> call_button_disabled
         (initializeSession 1767436800000 (fetch_rejected ''Failed to fetch'') initial_app)"
  using fallback_session[of "fetch_rejected ''Failed to fetch''" 1767436800000 initial_app]
  by (simp add: decimal.simps)

section \<open>Properties of the call screen\<close>

text \<open>
  Claim C3 (the microphone is never open while the agent's audio plays; listening
  begins only after the playback has ended) does not hold of the call screen of
  \<open>App.tsx\<close>.  The timeout that \<open>utterance.onend\<close> sets outlives \<open>handleEndCall\<close>: when
  the caller ends the call within the second after the greeting, the timeout still
  runs out and starts the microphone, with no call in progress.  In the next call the
  greeting is spoken with the microphone started: \<open>handleStartCall\<close> and its greeting,
  unlike \<open>handleResponseReceived\<close>, do not stop it.
\<close>

theorem microphone_started_during_greeting:
  "microphone_while_speaking (run_call hang_up_trace ready_call)
   \<and> isInCall (page (run_call hang_up_trace ready_call))
   \<and> microphone (run_call hang_up_trace ready_call)
   \<and> utterances (run_call hang_up_trace ready_call) = [greeting]
   \<and> call_status (run_call hang_up_trace ready_call) = st_speaking
   \<and> microphone (run_call (take 6 hang_up_trace) ready_call)
   \<and> \<not> isInCall (page (run_call (take 6 hang_up_trace) ready_call))"
  by (simp add: hang_up_trace_def ready_call_def run_call_def call_step_def
      microphone_while_speaking_def playVoiceResponse_def handleEndCall_def
      handleStartCall_def call_button_disabled_def)

text \<open>A reply stops the microphone before it is spoken.\<close>

lemma response_stops_microphone:
  "\<not> microphone (call_step c (response_received responseText))"
  by (simp add: call_step_def handleResponseReceived_def playVoiceResponse_def)

section \<open>Properties of the call component\<close>

lemma listeners_update_listener_Nil [simp]:
  "listeners (update_listener i f c) = [] \<longleftrightarrow> listeners c = []"
  by (simp add: update_listener_def)

lemma listeners_recorder_stop_Nil [simp]:
  "listeners (recorder_stop i c) = [] \<longleftrightarrow> listeners c = []"
  by (simp add: recorder_stop_def)

lemma listeners_stopListening_Nil [simp]:
  "listeners (stopListening c) = [] \<longleftrightarrow> listeners c = []"
  by (simp add: stopListening_def Let_def split: option.splits)

lemma recorder_stop_last:
  "listeners c \<noteq> [] \<Longrightarrow>
   \<not> recording (last (listeners (recorder_stop (length (listeners c) - 1) c)))"
  by (simp add: recorder_stop_def update_listener_def last_list_update)

lemma websocketRef_stopListening [simp]: "websocketRef (stopListening c) = websocketRef c"
  by (simp add: stopListening_def Let_def recorder_stop_def update_listener_def
      split: option.splits)

lemma streamRef_stopListening [simp]: "streamRef (stopListening c) = streamRef c"
  by (simp add: stopListening_def Let_def recorder_stop_def update_listener_def
      split: option.splits)

text \<open>
  Claim C10.  From any state of the component, \<open>endCall\<close> leaves the call state
  disconnected, not listening, not speaking, with status \<open>Call ended\<close>; a socket is
  closing or closed, every track of a captured stream is stopped, and the recorder that
  \<open>mediaRecorderRef\<close> refers to is inactive.
\<close>

theorem endCall_ends_call:
  "callState (endCall c) =
     \<lparr>isConnected = False, isListening = False, isSpeaking = False, status = ''Call ended''\<rparr>
   \<and> (\<forall>r. websocketRef c = Some r \<longrightarrow>
         websocketRef (endCall c) = Some (ws_close r) \<and> ws_close r \<in> {CLOSING, CLOSED})
   \<and> (\<forall>tracks. streamRef c = Some tracks \<longrightarrow>
         streamRef (endCall c) = Some (replicate (length tracks) False))
   \<and> (listeners c \<noteq> [] \<longrightarrow> \<not> recording (last (listeners (endCall c))))"
proof (intro conjI allI impI)
  show "callState (endCall c) =
     \<lparr>isConnected = False, isListening = False, isSpeaking = False, status = ''Call ended''\<rparr>"
    by (simp add: endCall_def Let_def)
next
  fix r assume "websocketRef c = Some r"
  then show "websocketRef (endCall c) = Some (ws_close r)"
    by (simp add: endCall_def Let_def recorder_stop_def update_listener_def)
next
  fix r show "ws_close r \<in> {CLOSING, CLOSED}" by (cases r) simp_all
next
  fix tracks assume "streamRef c = Some tracks"
  then show "streamRef (endCall c) = Some (replicate (length tracks) False)"
    by (simp add: endCall_def Let_def recorder_stop_def update_listener_def
        map_replicate_const)
next
  assume ne: "listeners c \<noteq> []"
  let ?c3 = "(stopListening c)
      \<lparr>websocketRef := map_option ws_close (websocketRef (stopListening c)),
       streamRef := map_option (map (\<lambda>track. False)) (streamRef (stopListening c))\<rparr>"
  have ne3: "listeners ?c3 \<noteq> []"
    using ne by simp
  from recorder_stop_last[OF ne3]
  show "\<not> recording (last (listeners (endCall c)))"
    using ne3 by (simp add: endCall_def Let_def)
qed

theorem endCall_ends_call_witness:
  "websocketRef recording_component = Some OPEN
   \<and> websocketRef (endCall recording_component) = Some CLOSING
   \<and> streamRef recording_component = Some [True]
   \<and> streamRef (endCall recording_component) = Some [False]
   \<and> listeners recording_component \<noteq> []
   \<and> \<not> recording (last (listeners (endCall recording_component)))
   \<and> callState (endCall recording_component) =
       \<lparr>isConnected = False, isListening = False, isSpeaking = False,
        status = ''Call ended''\<rparr>"
  using endCall_ends_call[of recording_component]
  by (simp add: recording_component_def)

end
